theory Spec2Isabelle
  imports Complex_Main "HOL-Library.Word"
begin

section \<open>A library of functions: expression nodes, differentiation, Newton's method\<close>

text \<open>
  The development embeds \<^verbatim>\<open>functions.py\<close>: the classes under \<^verbatim>\<open>AbstractFunction\<close>
  (\<^verbatim>\<open>Polynomial\<close>, \<^verbatim>\<open>Compose\<close>, \<^verbatim>\<open>Sum\<close>, \<^verbatim>\<open>Product\<close>, \<^verbatim>\<open>Power\<close>, \<^verbatim>\<open>Log\<close>,
  \<^verbatim>\<open>Exponential\<close>, \<^verbatim>\<open>Sin\<close>, \<^verbatim>\<open>Cos\<close>, \<^verbatim>\<open>Symbolic\<close>) and the functions
  \<^verbatim>\<open>newton_root\<close> and \<^verbatim>\<open>newton_extremum\<close>.

  The expression nodes are polymorphic in the scalar type \<open>'a\<close>, a commutative ring
  whose operations are the arithmetic of the numbers. At \<open>64 word\<close> it is numpy's
  \<^verbatim>\<open>int64\<close>: every operation is taken modulo \<open>2 ^ 64\<close> and read as a signed value
  (\<open>sint\<close>), as the arrays and scalars of numpy compute. At \<open>int\<close> it is the
  arithmetic of coefficients that stay small, and at \<open>real\<close> it stands for
  \<^verbatim>\<open>float64\<close> where every operation of the run is exact (the runs of Newton's
  method below): rounding, \<^verbatim>\<open>inf\<close> and \<^verbatim>\<open>nan\<close> have no model here, so no statement is
  made about floating-point runs that round. What differs between Python's integers
  and numpy's (the conversion of a Python integer, the array types) is modelled on
  its own in the sections on \<^verbatim>\<open>int64\<close>.
\<close>

subsection \<open>Exceptions\<close>

datatype error =
    ValueError string
  | TypeError
  | AttributeError
  | NotImplementedError string
  | ZeroDivisionError
  | OverflowError
  | IndexError
  | Unmodelled string

subsection \<open>Python values\<close>

text \<open>
  Python is dynamically typed: the argument of \<^verbatim>\<open>__call__\<close> and \<^verbatim>\<open>evaluate\<close> may be a
  number, a numpy array, a string or another function object, and the children of a
  combinator may be any value (\<^verbatim>\<open>Compose.derivative\<close> itself stores the result of a
  call, which is a string when the callee is a \<^verbatim>\<open>Symbolic\<close>). One datatype holds the
  values the program handles: numbers, one-dimensional numeric arrays, strings,
  \<^verbatim>\<open>None\<close>, plain lists of numbers, and one constructor for each class of function
  objects, named as in the source.
\<close>

datatype 'a pyval =
    PyNum 'a
  | PyArr "'a list"
  | PyStr string
  | PyNone
  | PyList "'a list"
  | Polynomial "'a list"
  | Compose "'a pyval" "'a pyval"
  | Sum "'a pyval" "'a pyval"
  | Product "'a pyval" "'a pyval"
  | Power 'a
  | Log
  | Exponential
  | Sin
  | Cos
  | Symbolic string

text \<open>\<^verbatim>\<open>isinstance(x, AbstractFunction)\<close>, \<^verbatim>\<open>isinstance(x, Symbolic)\<close>.\<close>

fun isinstance_AbstractFunction :: "'a pyval \<Rightarrow> bool" where
  "isinstance_AbstractFunction (PyNum _) = False"
| "isinstance_AbstractFunction (PyArr _) = False"
| "isinstance_AbstractFunction (PyStr _) = False"
| "isinstance_AbstractFunction PyNone = False"
| "isinstance_AbstractFunction (PyList _) = False"
| "isinstance_AbstractFunction _ = True"

fun isinstance_Symbolic :: "'a pyval \<Rightarrow> bool" where
  "isinstance_Symbolic (Symbolic _) = True"
| "isinstance_Symbolic _ = False"

text \<open>\<^verbatim>\<open>isinstance(x, numbers.Number)\<close>, \<^verbatim>\<open>isinstance(x, np.ndarray)\<close>.\<close>

fun isinstance_Number :: "'a pyval \<Rightarrow> bool" where
  "isinstance_Number (PyNum _) = True"
| "isinstance_Number _ = False"

fun isinstance_ndarray :: "'a pyval \<Rightarrow> bool" where
  "isinstance_ndarray (PyArr _) = True"
| "isinstance_ndarray _ = False"

subsection \<open>The arithmetic provider\<close>

text \<open>
  What the program takes from Python's floating point and from numpy without defining
  it is a parameter of the model: how a number prints (\<^verbatim>\<open>"{}".format(c)\<close>), how an
  array and a list print, whether a number is an integer that can repeat a string
  (\<^verbatim>\<open>__index__\<close>), the elementary functions \<^verbatim>\<open>np.log\<close>, \<^verbatim>\<open>np.exp\<close>, \<^verbatim>\<open>np.sin\<close>,
  \<^verbatim>\<open>np.cos\<close>, the power \<^verbatim>\<open>x ** n\<close> of a number and of an array entry, which may
  raise, and \<^verbatim>\<open>np.polymul\<close>.
\<close>

record 'a numeric =
  fmt_num :: "'a \<Rightarrow> string"
  fmt_arr :: "'a list \<Rightarrow> string"
  fmt_list :: "'a list \<Rightarrow> string"
  as_index :: "'a \<Rightarrow> int option"
  np_log :: "'a \<Rightarrow> 'a"
  np_exp :: "'a \<Rightarrow> 'a"
  np_sin :: "'a \<Rightarrow> 'a"
  np_cos :: "'a \<Rightarrow> 'a"
  py_pow :: "'a \<Rightarrow> 'a \<Rightarrow> error + 'a"
  np_power :: "'a \<Rightarrow> 'a \<Rightarrow> error + 'a"
  np_polymul :: "'a list \<Rightarrow> 'a list \<Rightarrow> 'a list"

subsection \<open>Polynomial\<close>

text \<open>
  \<^verbatim>\<open>self.coeff\<close> is the array of the constructor's arguments, highest degree first.
  \<^verbatim>\<open>degree\<close> is \<^verbatim>\<open>len(self.coeff) - 1\<close>, which is \<open>-1\<close> for \<^verbatim>\<open>Polynomial()\<close>.
\<close>

definition degree :: "'a list \<Rightarrow> int" where
  "degree coeff = int (length coeff) - 1"

text \<open>
  The scalar branch of \<^verbatim>\<open>Polynomial.evaluate\<close>:
  \<^verbatim>\<open>ret = 0; for k, c in enumerate(reversed(self.coeff)): ret = ret + c * x**k\<close>,
  for a number \<open>x\<close> of the type of the coefficients (for an \<^verbatim>\<open>int64\<close> array, a numpy
  \<^verbatim>\<open>int64\<close>: power, product and sum are taken modulo \<open>2 ^ 64\<close>). A Python integer as
  argument is \<open>Polynomial_evaluate_pyint\<close> below.
\<close>

definition evaluate_scalar :: "'a::comm_semiring_1 list \<Rightarrow> 'a \<Rightarrow> 'a" where
  "evaluate_scalar coeff x =
     foldl (\<lambda>ret (k, c). ret + c * x ^ k) 0 (enumerate 0 (rev coeff))"

text \<open>
  \<^verbatim>\<open>np.vander(x, N)\<close>: one row per entry of \<open>x\<close>, the powers \<open>N - 1, ..., 0\<close> of that
  entry, which numpy fills in as cumulative products; modulo \<open>2 ^ 64\<close> these are the
  powers. \<^verbatim>\<open>M.dot(v)\<close>: the matrix-vector product, in the arithmetic of the entries.
\<close>

definition vander :: "'a::comm_semiring_1 list \<Rightarrow> nat \<Rightarrow> 'a list list" where
  "vander x N = map (\<lambda>xi. map (\<lambda>j. xi ^ (N - 1 - j)) [0..<N]) x"

definition dot :: "'a::comm_semiring_1 list list \<Rightarrow> 'a list \<Rightarrow> 'a list" where
  "dot M v = map (\<lambda>row. sum_list (map2 (*) row v)) M"

text \<open>
  \<^verbatim>\<open>Polynomial.evaluate\<close>: the branch of a number, the branch of an array; any other
  argument reaches the end of the function body, which returns \<^verbatim>\<open>None\<close>.
\<close>

fun Polynomial_evaluate :: "'a::comm_semiring_1 list \<Rightarrow> 'a pyval \<Rightarrow> 'a pyval" where
  "Polynomial_evaluate coeff (PyNum x) = PyNum (evaluate_scalar coeff x)"
| "Polynomial_evaluate coeff (PyArr x) = PyArr (dot (vander x (length coeff)) coeff)"
| "Polynomial_evaluate coeff _ = PyNone"

text \<open>
  \<^verbatim>\<open>Polynomial.derivative\<close>: \<^verbatim>\<open>Polynomial(0)\<close> when there is one coefficient, else
  \<^verbatim>\<open>self.coeff[:-1] * np.array([n+1 for n in reversed(range(self.degree()))])\<close>, the
  elementwise product of two arrays in the arithmetic of the coefficients (for an
  \<^verbatim>\<open>int64\<close> array, modulo \<open>2 ^ 64\<close> with no warning).
\<close>

definition Polynomial_derivative :: "'a::comm_semiring_1 list \<Rightarrow> 'a list" where
  "Polynomial_derivative coeff =
     (if length coeff = 1 then [0]
      else map2 (*) (butlast coeff)
             (map (\<lambda>n. of_nat (n + 1)) (rev [0..<nat (degree coeff)])))"

text \<open>
  The in-place addition of \<^verbatim>\<open>Polynomial.__add__\<close>:
  \<^verbatim>\<open>coeff[-(k):] += other\<close> with \<open>k = len(other)\<close>. The slice starts at \<open>len(coeff) - k\<close>
  (at \<open>0\<close> when \<open>k = 0\<close>, since \<^verbatim>\<open>coeff[-0:]\<close> is the whole array); numpy adds
  elementwise when the lengths agree, adds the single entry to every place when
  \<open>other\<close> has one entry, and raises \<^verbatim>\<open>ValueError\<close> otherwise.
\<close>

definition slice_iadd :: "'a::plus list \<Rightarrow> 'a list \<Rightarrow> error + 'a list" where
  "slice_iadd coeff other =
     (let k = length other;
          start = (if k = 0 then 0 else length coeff - k);
          target = drop start coeff
      in if length target = k then Inr (take start coeff @ map2 (+) target other)
         else if k = 1 then Inr (take start coeff @ map (\<lambda>c. c + hd other) target)
         else Inl (ValueError ''operands could not be broadcast together''))"

text \<open>
  The coefficients \<^verbatim>\<open>Polynomial.__add__\<close> passes to the constructor of its result:
  the array of \<^verbatim>\<open>self\<close> when \<^verbatim>\<open>self.degree() > other.degree()\<close>, else the array of
  \<^verbatim>\<open>other\<close>, after the in-place addition of the other operand's array.
\<close>

definition Polynomial_add_coeff :: "'a::comm_semiring_1 list \<Rightarrow> 'a list \<Rightarrow> error + 'a list" where
  "Polynomial_add_coeff self_coeff other_coeff =
     (if degree self_coeff > degree other_coeff then slice_iadd self_coeff other_coeff
      else slice_iadd other_coeff self_coeff)"

text \<open>
  Two notions to state what the addition computes, independent of how it is computed:
  \<open>coefficient coeff k\<close> is the coefficient of \<open>x ^ k\<close> (the entry \<open>k\<close> places from the
  end of the array, zero beyond the degree), and \<open>right_aligned a b\<close> adds the
  shorter array \<open>b\<close> into the low-order end of \<open>a\<close>.
\<close>

definition coefficient :: "'a::zero list \<Rightarrow> nat \<Rightarrow> 'a" where
  "coefficient coeff k = (if k < length coeff then coeff ! (length coeff - 1 - k) else 0)"

definition right_aligned :: "'a::plus list \<Rightarrow> 'a list \<Rightarrow> 'a list" where
  "right_aligned a b =
     take (length a - length b) a @ map2 (+) (drop (length a - length b) a) b"

subsection \<open>Polynomial objects and their arrays in a store\<close>

text \<open>
  \<^verbatim>\<open>Polynomial.__add__\<close> writes into the array of one of its operands. To observe
  that, Polynomial objects are references into a store that maps each reference to
  the coefficient array the object holds (every constructor call makes an array of
  its own with \<^verbatim>\<open>np.array(list(args))\<close>, so an object and its array are one).
  \<open>next_ref\<close> is the first reference not yet allocated.

  An array has one of the two types numpy gives the constructor's arguments:
  \<^verbatim>\<open>int64\<close> when all are Python integers, \<^verbatim>\<open>float64\<close> when one is a float (and for
  no arguments). The entries of an \<^verbatim>\<open>int64\<close> array are words of 64 bits. The type
  \<open>'f\<close> of the entries of a \<^verbatim>\<open>float64\<close> array is a parameter with an addition of
  which nothing is assumed, so what is proved holds for floating-point addition as it
  is, rounding and absorption included; \<open>to_float\<close> is numpy's conversion of an
  \<^verbatim>\<open>int64\<close> to a \<^verbatim>\<open>float64\<close>.
\<close>

datatype 'f ndarray = Int64 "64 word list" | Float64 "'f list"

fun array_len :: "'f ndarray \<Rightarrow> nat" where
  "array_len (Int64 a) = length a"
| "array_len (Float64 a) = length a"

text \<open>\<^verbatim>\<open>Polynomial.degree\<close>: \<^verbatim>\<open>len(self.coeff) - 1\<close>.\<close>

definition array_degree :: "'f ndarray \<Rightarrow> int" where
  "array_degree a = int (array_len a) - 1"

record 'f store =
  array_at :: "nat \<Rightarrow> 'f ndarray"
  next_ref :: nat

text \<open>
  \<^verbatim>\<open>np.array(list(args))\<close> for \<open>args\<close> the entries of an array: an array of the same
  type with the same entries; the empty list gives an empty \<^verbatim>\<open>float64\<close> array.
\<close>

fun np_array :: "'f ndarray \<Rightarrow> 'f ndarray" where
  "np_array (Int64 []) = Float64 []"
| "np_array a = a"

text \<open>\<^verbatim>\<open>Polynomial(*args)\<close>: a new object with a new array.\<close>

definition new_Polynomial :: "'f ndarray \<Rightarrow> 'f store \<Rightarrow> nat \<times> 'f store" where
  "new_Polynomial args s =
     (next_ref s,
      s\<lparr>array_at := (array_at s)(next_ref s := np_array args), next_ref := Suc (next_ref s)\<rparr>)"

text \<open>
  \<^verbatim>\<open>coeff[-k:] += other\<close> on arrays with their types. numpy first resolves the
  types: the sum of an \<^verbatim>\<open>int64\<close> and a \<^verbatim>\<open>float64\<close> array is \<^verbatim>\<open>float64\<close>, which it
  refuses to cast into the \<^verbatim>\<open>int64\<close> array written to (a \<^verbatim>\<open>UFuncTypeError\<close>, which
  is a \<^verbatim>\<open>TypeError\<close>); a \<^verbatim>\<open>float64\<close> array receives \<^verbatim>\<open>int64\<close> entries converted.
  Then it adds as \<open>slice_iadd\<close> does.
\<close>

fun iadd :: "(64 word \<Rightarrow> 'f) \<Rightarrow> 'f::plus ndarray \<Rightarrow> 'f ndarray \<Rightarrow> error + 'f ndarray" where
  "iadd to_float (Int64 a) (Int64 b) =
     (case slice_iadd a b of Inl e \<Rightarrow> Inl e | Inr c \<Rightarrow> Inr (Int64 c))"
| "iadd to_float (Int64 a) (Float64 b) = Inl TypeError"
| "iadd to_float (Float64 a) (Int64 b) =
     (case slice_iadd a (map to_float b) of Inl e \<Rightarrow> Inl e | Inr c \<Rightarrow> Inr (Float64 c))"
| "iadd to_float (Float64 a) (Float64 b) =
     (case slice_iadd a b of Inl e \<Rightarrow> Inl e | Inr c \<Rightarrow> Inr (Float64 c))"

text \<open>
  \<^verbatim>\<open>Polynomial.__add__(self, other)\<close> for \<^verbatim>\<open>other\<close> a Polynomial:
  \<^verbatim>\<open>coeff = self.coeff\<close> (or \<^verbatim>\<open>other.coeff\<close>) is the operand's own array, not a copy;
  the slice addition updates it in place; the result is a new Polynomial built from
  its entries.
\<close>

definition Polynomial_add ::
  "(64 word \<Rightarrow> 'f) \<Rightarrow> nat \<Rightarrow> nat \<Rightarrow> 'f::plus store \<Rightarrow> error + (nat \<times> 'f store)" where
  "Polynomial_add to_float self other s =
     (if array_degree (array_at s self) > array_degree (array_at s other) then
        (case iadd to_float (array_at s self) (array_at s other) of
           Inl e \<Rightarrow> Inl e
         | Inr coeff \<Rightarrow> Inr (new_Polynomial coeff (s\<lparr>array_at := (array_at s)(self := coeff)\<rparr>)))
      else
        (case iadd to_float (array_at s other) (array_at s self) of
           Inl e \<Rightarrow> Inl e
         | Inr coeff \<Rightarrow> Inr (new_Polynomial coeff (s\<lparr>array_at := (array_at s)(other := coeff)\<rparr>))))"

text \<open>
  What the addition is to compute, stated apart from the code: the right-aligned sum
  of two arrays in the type of the array \<open>a\<close> written to.
\<close>

fun aligned_sum :: "(64 word \<Rightarrow> 'f) \<Rightarrow> 'f::plus ndarray \<Rightarrow> 'f ndarray \<Rightarrow> 'f ndarray" where
  "aligned_sum to_float (Int64 a) (Int64 b) = Int64 (right_aligned a b)"
| "aligned_sum to_float (Float64 a) (Int64 b) = Float64 (right_aligned a (map to_float b))"
| "aligned_sum to_float (Float64 a) (Float64 b) = Float64 (right_aligned a b)"
| "aligned_sum to_float (Int64 a) (Float64 b) = Int64 a"

text \<open>
  When the addition raises: the array written to is \<^verbatim>\<open>int64\<close> and the other
  \<^verbatim>\<open>float64\<close>, or the other array is empty and the one written to is not.
\<close>

fun add_raises :: "'f ndarray \<Rightarrow> 'f ndarray \<Rightarrow> bool" where
  "add_raises (Int64 a) (Float64 b) = True"
| "add_raises a b = (array_len b = 0 \<and> array_len a \<noteq> 0)"

subsection \<open>Rendering\<close>

text \<open>\<^verbatim>\<open>str(n)\<close> of a Python integer: its decimal digits.\<close>

fun str_nat :: "nat \<Rightarrow> string" where
  "str_nat n =
     (if n < 10 then [''0123456789'' ! n]
      else str_nat (n div 10) @ [''0123456789'' ! (n mod 10)])"

declare str_nat.simps [simp del]

definition str_int :: "int \<Rightarrow> string" where
  "str_int i = (if i < 0 then ''-'' @ str_nat (nat (- i)) else str_nat (nat i))"

text \<open>
  The body of the loop of \<^verbatim>\<open>Polynomial.__str__\<close> over \<^verbatim>\<open>enumerate(self.coeff)\<close>:
  \<open>s\<close> is the string built so far, \<open>fmt\<close> prints a coefficient. The doubled braces
  of the source's templates are single braces after its \<^verbatim>\<open>format\<close>.
\<close>

definition Polynomial_str_body ::
  "('a::{zero,one} \<Rightarrow> string) \<Rightarrow> int \<Rightarrow> string \<Rightarrow> nat \<times> 'a \<Rightarrow> string" where
  "Polynomial_str_body fmt deg s ic =
     (case ic of (i, c) \<Rightarrow>
        if int i < deg - 1 then
          (if c = 0 then s
           else if c = 1 then s @ ''({0})^'' @ str_int (deg - int i) @ '' + ''
           else s @ fmt c @ ''({0})^'' @ str_int (deg - int i) @ '' + '')
        else if int i = deg - 1 then
          (if c = 0 then s
           else if c = 1 then s @ ''{0} + ''
           else s @ fmt c @ ''({0}) + '')
        else
          (if c = 0 \<and> length s > 0 then s
           else s @ fmt c))"

text \<open>
  \<^verbatim>\<open>Polynomial.__str__\<close>: the loop, then \<^verbatim>\<open>if s[-3:] == " + ": s = s[:-3]\<close>.
\<close>

definition Polynomial_str :: "('a::{zero,one} \<Rightarrow> string) \<Rightarrow> 'a list \<Rightarrow> string" where
  "Polynomial_str fmt coeff =
     (let deg = degree coeff;
          s = foldl (Polynomial_str_body fmt deg) [] (enumerate 0 coeff)
      in if drop (length s - 3) s = '' + '' then take (length s - 3) s else s)"

text \<open>
  \<^verbatim>\<open>str(v)\<close>, which is also what \<^verbatim>\<open>"{}".format(v)\<close> inserts: the \<^verbatim>\<open>__str__\<close> of each
  class. \<^verbatim>\<open>Log\<close>, \<^verbatim>\<open>Exponential\<close>, \<^verbatim>\<open>Sin\<close> and \<^verbatim>\<open>Cos\<close> return their literal
  unformatted, so its braces stay doubled.
\<close>

fun py_str :: "'a::{zero,one} numeric \<Rightarrow> 'a pyval \<Rightarrow> string" where
  "py_str P (PyNum c) = fmt_num P c"
| "py_str P (PyArr cs) = fmt_arr P cs"
| "py_str P (PyStr s) = s"
| "py_str P PyNone = ''None''"
| "py_str P (PyList cs) = fmt_list P cs"
| "py_str P (Polynomial coeff) = Polynomial_str (fmt_num P) coeff"
| "py_str P (Compose f g) = py_str P f @ ''('' @ py_str P g @ '')''"
| "py_str P (Sum f g) = py_str P f @ '' + '' @ py_str P g"
| "py_str P (Product f g) = py_str P f @ '' * '' @ py_str P g"
| "py_str P (Power n) = ''{0} ^ '' @ fmt_num P n"
| "py_str P Log = ''log({{0}})''"
| "py_str P Exponential = ''e ^ {{0}}''"
| "py_str P Sin = ''sin({{0}})''"
| "py_str P Cos = ''cos({{0}})''"
| "py_str P (Symbolic name) = name @ ''({0})''"

text \<open>
  \<^verbatim>\<open>template.format(x)\<close> with the one positional argument \<open>x\<close>, a string. The
  template is read from the left: \<^verbatim>\<open>{{\<close> and \<^verbatim>\<open>}}\<close> are the escaped braces, a brace
  on its own is a \<^verbatim>\<open>ValueError\<close>, the fields \<^verbatim>\<open>{0}\<close> and \<^verbatim>\<open>{}\<close> insert \<open>x\<close>; a second
  \<^verbatim>\<open>{}\<close> asks for a second argument (\<^verbatim>\<open>IndexError\<close>), and mixing the two numberings
  is a \<^verbatim>\<open>ValueError\<close>. Every template the classes build has only \<^verbatim>\<open>{0}\<close> fields and
  escaped braces; the other replacement fields of Python (names, conversions, format
  specifications), which only a brace in the name of a \<^verbatim>\<open>Symbolic\<close> or in a printed number
  could produce, are not modelled.
\<close>

datatype numbering = Unset | Manual | Auto

definition prepend :: "string \<Rightarrow> error + string \<Rightarrow> error + string" where
  "prepend s r = (case r of Inl e \<Rightarrow> Inl e | Inr t \<Rightarrow> Inr (s @ t))"

fun format_from :: "numbering \<Rightarrow> string \<Rightarrow> string \<Rightarrow> error + string" where
  "format_from st [] x = Inr []"
| "format_from st [c] x =
     (if c = CHR ''{'' then Inl (ValueError ''Single { encountered in format string'')
      else if c = CHR ''}'' then Inl (ValueError ''Single } encountered in format string'')
      else Inr [c])"
| "format_from st (c # d # t) x =
     (if c = CHR ''{'' then
        (if d = CHR ''{'' then prepend ''{'' (format_from st t x)
         else if d = CHR ''}'' then
           (case st of
              Unset \<Rightarrow> prepend x (format_from Auto t x)
            | Auto \<Rightarrow> Inl IndexError
            | Manual \<Rightarrow> Inl (ValueError ''cannot switch from manual field specification to automatic field numbering''))
         else if d = CHR ''0'' then
           (case t of
              e # t' \<Rightarrow>
                if e = CHR ''}'' then
                  (case st of
                     Auto \<Rightarrow> Inl (ValueError ''cannot switch from automatic field numbering to manual field specification'')
                   | _ \<Rightarrow> prepend x (format_from Manual t' x))
                else Inl (Unmodelled ''replacement field'')
            | [] \<Rightarrow> Inl (ValueError ''expected } before end of string''))
         else Inl (Unmodelled ''replacement field''))
      else if c = CHR ''}'' then
        (if d = CHR ''}'' then prepend ''}'' (format_from st t x)
         else Inl (ValueError ''Single } encountered in format string''))
      else prepend [c] (format_from st (d # t) x))"

definition py_format :: "string \<Rightarrow> string \<Rightarrow> error + string" where
  "py_format template x = format_from Unset template x"

subsection \<open>Python's operators on values\<close>

text \<open>
  numpy's arithmetic on two one-dimensional arrays: elementwise when the lengths
  agree, a single entry against every entry of the other array, else \<^verbatim>\<open>ValueError\<close>.
\<close>

definition broadcast :: "('a \<Rightarrow> 'a \<Rightarrow> 'a) \<Rightarrow> 'a list \<Rightarrow> 'a list \<Rightarrow> error + 'a pyval" where
  "broadcast f xs ys =
     (if length xs = length ys then Inr (PyArr (map2 f xs ys))
      else if length xs = 1 then Inr (PyArr (map (f (hd xs)) ys))
      else if length ys = 1 then Inr (PyArr (map (\<lambda>x. f x (hd ys)) xs))
      else Inl (ValueError ''operands could not be broadcast together''))"

text \<open>
  \<open>a + b\<close>. A function object on the left answers with its \<^verbatim>\<open>__add__\<close>: two
  Polynomials add their coefficients (the value of the result; the write into the
  operand's array is in \<open>Polynomial_add\<close>), anything else builds \<^verbatim>\<open>Sum(a, b)\<close>.
  Numbers and arrays add, strings concatenate, lists concatenate. No other pair has an
  addition, which is a \<^verbatim>\<open>TypeError\<close>, but for the pairs that numpy converts: what it
  does with an array and \<^verbatim>\<open>None\<close>, a list or a function object, and with a list and a
  number, depends on the array and on the number's type and is not modelled.
\<close>

definition py_add :: "'a::comm_ring_1 pyval \<Rightarrow> 'a pyval \<Rightarrow> error + 'a pyval" where
  "py_add a b =
     (case a of
        PyNum x \<Rightarrow>
          (case b of
             PyNum y \<Rightarrow> Inr (PyNum (x + y))
           | PyArr ys \<Rightarrow> Inr (PyArr (map (\<lambda>y. x + y) ys))
           | PyList ys \<Rightarrow> Inl (Unmodelled ''number and list'')
           | _ \<Rightarrow> Inl TypeError)
      | PyArr xs \<Rightarrow>
          (case b of
             PyNum y \<Rightarrow> Inr (PyArr (map (\<lambda>x. x + y) xs))
           | PyArr ys \<Rightarrow> broadcast (+) xs ys
           | PyStr t \<Rightarrow> Inl TypeError
           | _ \<Rightarrow> Inl (Unmodelled ''array and object''))
      | PyStr s \<Rightarrow>
          (case b of
             PyStr t \<Rightarrow> Inr (PyStr (s @ t))
           | _ \<Rightarrow> Inl TypeError)
      | PyNone \<Rightarrow>
          (case b of
             PyArr ys \<Rightarrow> Inl (Unmodelled ''array and object'')
           | _ \<Rightarrow> Inl TypeError)
      | PyList xs \<Rightarrow>
          (case b of
             PyList ys \<Rightarrow> Inr (PyList (xs @ ys))
           | PyNum y \<Rightarrow> Inl (Unmodelled ''number and list'')
           | PyArr ys \<Rightarrow> Inl (Unmodelled ''array and object'')
           | _ \<Rightarrow> Inl TypeError)
      | Polynomial ca \<Rightarrow>
          (case b of
             Polynomial cb \<Rightarrow>
               (case Polynomial_add_coeff ca cb of Inl e \<Rightarrow> Inl e | Inr c \<Rightarrow> Inr (Polynomial c))
           | _ \<Rightarrow> Inr (Sum a b))
      | _ \<Rightarrow> Inr (Sum a b))"

text \<open>
  \<open>a * b\<close>. A function object on the left answers with its \<^verbatim>\<open>__mul__\<close>: two
  Polynomials multiply with \<^verbatim>\<open>np.polymul\<close>, anything else builds \<^verbatim>\<open>Product(a, b)\<close>.
  Numbers and arrays multiply; a string and an integer repeat the string.
\<close>

definition py_mul :: "'a::comm_ring_1 numeric \<Rightarrow> 'a pyval \<Rightarrow> 'a pyval \<Rightarrow> error + 'a pyval" where
  "py_mul P a b =
     (case a of
        PyNum x \<Rightarrow>
          (case b of
             PyNum y \<Rightarrow> Inr (PyNum (x * y))
           | PyArr ys \<Rightarrow> Inr (PyArr (map (\<lambda>y. x * y) ys))
           | PyStr t \<Rightarrow>
               (case as_index P x of
                  None \<Rightarrow> Inl TypeError
                | Some n \<Rightarrow> Inr (PyStr (concat (replicate (nat n) t))))
           | PyList ys \<Rightarrow> Inl (Unmodelled ''number and list'')
           | _ \<Rightarrow> Inl TypeError)
      | PyArr xs \<Rightarrow>
          (case b of
             PyNum y \<Rightarrow> Inr (PyArr (map (\<lambda>x. x * y) xs))
           | PyArr ys \<Rightarrow> broadcast (*) xs ys
           | _ \<Rightarrow> Inl (Unmodelled ''array and object''))
      | PyStr s \<Rightarrow>
          (case b of
             PyNum y \<Rightarrow>
               (case as_index P y of
                  None \<Rightarrow> Inl TypeError
                | Some n \<Rightarrow> Inr (PyStr (concat (replicate (nat n) s))))
           | PyArr ys \<Rightarrow> Inl (Unmodelled ''array and object'')
           | _ \<Rightarrow> Inl TypeError)
      | PyNone \<Rightarrow>
          (case b of
             PyArr ys \<Rightarrow> Inl (Unmodelled ''array and object'')
           | _ \<Rightarrow> Inl TypeError)
      | PyList xs \<Rightarrow>
          (case b of
             PyNum y \<Rightarrow> Inl (Unmodelled ''number and list'')
           | PyArr ys \<Rightarrow> Inl (Unmodelled ''array and object'')
           | _ \<Rightarrow> Inl TypeError)
      | Polynomial ca \<Rightarrow>
          (case b of
             Polynomial cb \<Rightarrow> Inr (Polynomial (np_polymul P ca cb))
           | _ \<Rightarrow> Inr (Product a b))
      | _ \<Rightarrow> Inr (Product a b))"

text \<open>A list of results is the list of the values, or the first error.\<close>

fun sequence :: "(error + 'a) list \<Rightarrow> error + 'a list" where
  "sequence [] = Inr []"
| "sequence (r # rs) =
     (case r of
        Inl e \<Rightarrow> Inl e
      | Inr v \<Rightarrow> (case sequence rs of Inl e \<Rightarrow> Inl e | Inr vs \<Rightarrow> Inr (v # vs)))"

text \<open>
  \<open>x ** n\<close> for a number \<open>n\<close>: the power of a number, the elementwise power of an
  array; a function object answers with \<^verbatim>\<open>AbstractFunction.__pow__\<close>, which is
  \<^verbatim>\<open>Power(n)(self)\<close>, the composition (\<^verbatim>\<open>Power\<close> does not override \<^verbatim>\<open>__call__\<close> and
  \<open>x\<close> is a function object).
\<close>

fun py_power :: "'a numeric \<Rightarrow> 'a pyval \<Rightarrow> 'a \<Rightarrow> error + 'a pyval" where
  "py_power P (PyNum x) n = (case py_pow P x n of Inl e \<Rightarrow> Inl e | Inr v \<Rightarrow> Inr (PyNum v))"
| "py_power P (PyArr xs) n =
     (case sequence (map (\<lambda>x. np_power P x n) xs) of Inl e \<Rightarrow> Inl e | Inr vs \<Rightarrow> Inr (PyArr vs))"
| "py_power P (PyStr s) n = Inl TypeError"
| "py_power P PyNone n = Inl TypeError"
| "py_power P (PyList xs) n = Inl (Unmodelled ''number and list'')"
| "py_power P x n = Inr (Compose (Power n) x)"

text \<open>
  A numpy function such as \<^verbatim>\<open>np.log\<close> applied to a value: to a number, to every
  entry of an array or of a list, which it converts to an array; it has no loop for
  any other value (\<^verbatim>\<open>TypeError\<close>).
\<close>

fun np_apply :: "('a \<Rightarrow> 'a) \<Rightarrow> 'a pyval \<Rightarrow> error + 'a pyval" where
  "np_apply f (PyNum x) = Inr (PyNum (f x))"
| "np_apply f (PyArr xs) = Inr (PyArr (map f xs))"
| "np_apply f (PyList xs) = Inr (PyArr (map f xs))"
| "np_apply f _ = Inl TypeError"

subsection \<open>evaluate and __call__\<close>

text \<open>
  \<open>evaluate P f x\<close> is \<^verbatim>\<open>f.evaluate(x)\<close> and \<open>call P f x\<close> is \<^verbatim>\<open>f(x)\<close>.

  \<^verbatim>\<open>Symbolic\<close> overrides \<^verbatim>\<open>__call__\<close> with \<^verbatim>\<open>'{}({})'.format(self.f, x)\<close> and inherits
  \<^verbatim>\<open>AbstractFunction.evaluate\<close>, which raises \<^verbatim>\<open>NotImplementedError\<close>. Every other class
  inherits \<^verbatim>\<open>AbstractFunction.__call__\<close>: a function object as argument gives
  \<^verbatim>\<open>Compose(self, x)\<close>, a string gives \<^verbatim>\<open>self.__str__().format(x)\<close>, anything else
  \<^verbatim>\<open>self.evaluate(x)\<close>. A value that is no function object has no \<^verbatim>\<open>evaluate\<close>
  (\<^verbatim>\<open>AttributeError\<close>) and cannot be called (\<^verbatim>\<open>TypeError\<close>).
\<close>

fun evaluate :: "'a::comm_ring_1 numeric \<Rightarrow> 'a pyval \<Rightarrow> 'a pyval \<Rightarrow> error + 'a pyval"
  and call :: "'a numeric \<Rightarrow> 'a pyval \<Rightarrow> 'a pyval \<Rightarrow> error + 'a pyval" where
  "evaluate P (Polynomial coeff) x = Inr (Polynomial_evaluate coeff x)"
| "evaluate P (Compose f g) x =
     (case call P g x of
        Inl e \<Rightarrow> Inl e
      | Inr gx \<Rightarrow> call P f gx)"
| "evaluate P (Sum f g) x =
     (case call P f x of
        Inl e \<Rightarrow> Inl e
      | Inr fx \<Rightarrow> (case call P g x of Inl e \<Rightarrow> Inl e | Inr gx \<Rightarrow> py_add fx gx))"
| "evaluate P (Product f g) x =
     (case call P f x of
        Inl e \<Rightarrow> Inl e
      | Inr fx \<Rightarrow> (case call P g x of Inl e \<Rightarrow> Inl e | Inr gx \<Rightarrow> py_mul P fx gx))"
| "evaluate P (Power n) x = py_power P x n"
| "evaluate P Log x = np_apply (np_log P) x"
| "evaluate P Exponential x = np_apply (np_exp P) x"
| "evaluate P Sin x = np_apply (np_sin P) x"
| "evaluate P Cos x = np_apply (np_cos P) x"
| "evaluate P (Symbolic name) x = Inl (NotImplementedError ''evaluate'')"
| "evaluate P (PyNum v) x = Inl AttributeError"
| "evaluate P (PyArr vs) x = Inl AttributeError"
| "evaluate P (PyStr s) x = Inl AttributeError"
| "evaluate P PyNone x = Inl AttributeError"
| "evaluate P (PyList vs) x = Inl AttributeError"
| "call P (Symbolic name) x = Inr (PyStr (name @ ''('' @ py_str P x @ '')''))"
| "call P (PyNum v) x = Inl TypeError"
| "call P (PyArr vs) x = Inl TypeError"
| "call P (PyStr s) x = Inl TypeError"
| "call P PyNone x = Inl TypeError"
| "call P (PyList vs) x = Inl TypeError"
| "call P f x =
     (if isinstance_AbstractFunction x then Inr (Compose f x)
      else (case x of
              PyStr s \<Rightarrow> (case py_format (py_str P f) s of Inl e \<Rightarrow> Inl e | Inr r \<Rightarrow> Inr (PyStr r))
            | _ \<Rightarrow> evaluate P f x))"

subsection \<open>derivative\<close>

text \<open>\<^verbatim>\<open>Constant(c)\<close>, \<^verbatim>\<open>Scale(a)\<close> and \<^verbatim>\<open>Affine(a, b)\<close> are Polynomials.\<close>

definition Constant :: "'a \<Rightarrow> 'a pyval" where
  "Constant c = Polynomial [c]"

definition Scale :: "'a::zero \<Rightarrow> 'a pyval" where
  "Scale a = Polynomial [a, 0]"

definition Affine :: "'a \<Rightarrow> 'a \<Rightarrow> 'a pyval" where
  "Affine a b = Polynomial [a, b]"

text \<open>
  \<open>derivative P f\<close> is \<^verbatim>\<open>f.derivative()\<close>. \<^verbatim>\<open>Compose.derivative\<close> is
  \<^verbatim>\<open>Product(self.f.derivative()(self.g), self.g.derivative())\<close>: the derivative of
  \<open>f\<close> is called on \<open>g\<close>, then \<open>g\<close> is differentiated. A value that is no function
  object has no \<^verbatim>\<open>derivative\<close>.
\<close>

fun derivative :: "'a::comm_ring_1 numeric \<Rightarrow> 'a pyval \<Rightarrow> error + 'a pyval" where
  "derivative P (Polynomial coeff) = Inr (Polynomial (Polynomial_derivative coeff))"
| "derivative P (Compose f g) =
     (case derivative P f of
        Inl e \<Rightarrow> Inl e
      | Inr f' \<Rightarrow>
          (case call P f' g of
             Inl e \<Rightarrow> Inl e
           | Inr f'g \<Rightarrow>
               (case derivative P g of Inl e \<Rightarrow> Inl e | Inr g' \<Rightarrow> Inr (Product f'g g'))))"
| "derivative P (Sum f g) =
     (case derivative P f of
        Inl e \<Rightarrow> Inl e
      | Inr f' \<Rightarrow> (case derivative P g of Inl e \<Rightarrow> Inl e | Inr g' \<Rightarrow> Inr (Sum f' g')))"
| "derivative P (Product f g) =
     (case derivative P f of
        Inl e \<Rightarrow> Inl e
      | Inr f' \<Rightarrow>
          (case derivative P g of
             Inl e \<Rightarrow> Inl e
           | Inr g' \<Rightarrow> Inr (Sum (Product f' g) (Product f g'))))"
| "derivative P (Power n) = Inr (Product (Constant n) (Power (n - 1)))"
| "derivative P Log = Inr (Power (- 1))"
| "derivative P Exponential = Inr Exponential"
| "derivative P Sin = Inr Cos"
| "derivative P Cos = Inr (Product (Constant (- 1)) Sin)"
| "derivative P (Symbolic name) = Inr (Symbolic (name @ [CHR 0x27]))"
| "derivative P _ = Inl AttributeError"

subsection \<open>Newton's method\<close>

text \<open>
  \<^verbatim>\<open>newton_root(f, x0, tol=1e-8)\<close>. The starting point and the tolerance are numbers.
  After the two \<^verbatim>\<open>isinstance\<close> checks the function computes \<^verbatim>\<open>fx = f.evaluate(x)\<close>
  and runs \<^verbatim>\<open>while(abs(fx) > tol)\<close>, whose body is
  \<^verbatim>\<open>x = x - fx/f.derivative().evaluate(x); fx = f.evaluate(x)\<close>. The loop has no bound:
  not returning is the value \<open>None\<close> of the model.

  \<^verbatim>\<open>abs\<close> and the comparison need a number (a string, \<^verbatim>\<open>None\<close> or a function object
  has no \<^verbatim>\<open>abs\<close>); the division needs a number as divisor. The numbers divided are
  numpy scalars, for which a zero divisor gives \<^verbatim>\<open>inf\<close> or \<^verbatim>\<open>nan\<close> and a warning: the
  scalar type has no such value, so the division by zero is not modelled. The
  evaluation of a function object at a number returns no array, so the truth value
  of an array is not modelled either.
\<close>

definition default_tol :: "'a::field" where
  "default_tol = 1 / 10 ^ 8"

fun py_truediv :: "'a::field \<Rightarrow> 'a pyval \<Rightarrow> error + 'a" where
  "py_truediv v (PyNum d) = (if d = 0 then Inl (Unmodelled ''division by zero'') else Inr (v / d))"
| "py_truediv v (PyArr ds) = Inl (Unmodelled ''array'')"
| "py_truediv v (PyList ds) = Inl (Unmodelled ''number and list'')"
| "py_truediv v _ = Inl TypeError"

partial_function (option) newton_loop ::
  "'a::linordered_field numeric \<Rightarrow> 'a pyval \<Rightarrow> 'a \<Rightarrow> 'a \<Rightarrow> 'a pyval \<Rightarrow> (error + 'a) option" where
  "newton_loop P f tol x fx =
     (case fx of
        PyNum v \<Rightarrow>
          if \<bar>v\<bar> > tol then
            (case derivative P f of
               Inl e \<Rightarrow> Some (Inl e)
             | Inr f' \<Rightarrow>
                 (case evaluate P f' (PyNum x) of
                    Inl e \<Rightarrow> Some (Inl e)
                  | Inr d \<Rightarrow>
                      (case py_truediv v d of
                         Inl e \<Rightarrow> Some (Inl e)
                       | Inr q \<Rightarrow>
                           (case evaluate P f (PyNum (x - q)) of
                              Inl e \<Rightarrow> Some (Inl e)
                            | Inr fx' \<Rightarrow> newton_loop P f tol (x - q) fx'))))
          else Some (Inr x)
      | PyArr vs \<Rightarrow> Some (Inl (Unmodelled ''array''))
      | _ \<Rightarrow> Some (Inl TypeError))"

definition newton_root ::
  "'a::linordered_field numeric \<Rightarrow> 'a pyval \<Rightarrow> 'a \<Rightarrow> 'a \<Rightarrow> (error + 'a) option" where
  "newton_root P f x0 tol =
     (if \<not> isinstance_AbstractFunction f then
        Some (Inl (ValueError ''f must be an AbstractFunction''))
      else if isinstance_Symbolic f then
        Some (Inl (ValueError ''f must not be a Symbolic''))
      else
        (case evaluate P f (PyNum x0) of
           Inl e \<Rightarrow> Some (Inl e)
         | Inr fx \<Rightarrow> newton_loop P f tol x0 fx))"

text \<open>
  \<^verbatim>\<open>newton_extremum(f, x0, tol=1e-8)\<close>: \<^verbatim>\<open>f = f.derivative()\<close>, then
  \<^verbatim>\<open>return newton_root(f,x0)\<close>. The call passes two arguments, so \<^verbatim>\<open>newton_root\<close>
  runs with its default tolerance.
\<close>

definition newton_extremum ::
  "'a::linordered_field numeric \<Rightarrow> 'a pyval \<Rightarrow> 'a \<Rightarrow> 'a \<Rightarrow> (error + 'a) option" where
  "newton_extremum P f x0 tol =
     (case derivative P f of
        Inl e \<Rightarrow> Some (Inl e)
      | Inr f' \<Rightarrow> newton_root P f' x0 default_tol)"

text \<open>
  What the documentation of \<^verbatim>\<open>newton_extremum\<close> describes (its docstring measures
  convergence by \<^verbatim>\<open>abs(f'(x)) < tol\<close>): \<^verbatim>\<open>newton_root(f.derivative(), x0, tol)\<close>, with
  the tolerance of the caller.
\<close>

definition newton_extremum_spec ::
  "'a::linordered_field numeric \<Rightarrow> 'a pyval \<Rightarrow> 'a \<Rightarrow> 'a \<Rightarrow> (error + 'a) option" where
  "newton_extremum_spec P f x0 tol =
     (case derivative P f of
        Inl e \<Rightarrow> Some (Inl e)
      | Inr f' \<Rightarrow> newton_root P f' x0 tol)"

subsection \<open>Integer arguments of a Polynomial with int64 coefficients\<close>









section \<open>Properties\<close>

subsection \<open>Polynomial evaluation\<close>
















text \<open>
  C10. For every Polynomial and every argument that is neither a number nor an array
  (a list, a string, \<^verbatim>\<open>None\<close>, a function object), \<^verbatim>\<open>evaluate\<close> returns \<^verbatim>\<open>None\<close>:
  no branch is taken and no error is raised.
\<close>

theorem Polynomial_evaluate_falls_through:
  fixes x :: "'a::comm_ring_1 pyval"
  assumes "\<not> isinstance_Number x" and "\<not> isinstance_ndarray x"
  shows "evaluate P (Polynomial coeff) x = Inr PyNone"
  using assms by (cases x) simp_all

theorem Polynomial_evaluate_falls_through_witness:
  "\<forall>P. \<not> isinstance_Number (PyList [1, 2 :: int]) \<and>
       \<not> isinstance_ndarray (PyList [1, 2 :: int]) \<and>
       evaluate P (Polynomial [1, 2 :: int]) (PyList [1, 2]) = Inr PyNone"
proof
  fix P :: "int numeric"
  have a: "\<not> isinstance_Number (PyList [1, 2 :: int])" by simp
  have b: "\<not> isinstance_ndarray (PyList [1, 2 :: int])" by simp
  show "\<not> isinstance_Number (PyList [1, 2 :: int]) \<and>
        \<not> isinstance_ndarray (PyList [1, 2 :: int]) \<and>
        evaluate P (Polynomial [1, 2 :: int]) (PyList [1, 2]) = Inr PyNone"
    using a b Polynomial_evaluate_falls_through [OF a b, of P "[1, 2]"] by blast
qed

subsection \<open>Rendering and Symbolic\<close>


text \<open>
  C9. \<^verbatim>\<open>Polynomial(1,2,0)\<close> called with the string \<^verbatim>\<open>"x"\<close> returns exactly
  \<^verbatim>\<open>"(x)^2 + 2(x)"\<close>. The coefficients are integers, printed in decimal.
\<close>

theorem Polynomial_render_example:
  "call (P\<lparr>fmt_num := str_int\<rparr>) (Polynomial [1, 2, 0]) (PyStr ''x'') =
   Inr (PyStr ''(x)^2 + 2(x)'')"
  by (simp add: Polynomial_str_def Polynomial_str_body_def degree_def py_format_def
      prepend_def str_int_def str_nat.simps)

subsection \<open>The chain rule\<close>

lemma derivative_of_function:
  assumes "isinstance_AbstractFunction f" "\<not> isinstance_Symbolic f" "derivative P f = Inr f'"
  shows "isinstance_AbstractFunction f' \<and> \<not> isinstance_Symbolic f'"
  using assms by (cases f) (auto split: sum.splits simp: Constant_def)

lemma call_function:
  assumes "isinstance_AbstractFunction f" "\<not> isinstance_Symbolic f" "isinstance_AbstractFunction g"
  shows "call P f g = Inr (Compose f g)"
  using assms by (cases f) simp_all

lemma call_number:
  assumes "isinstance_AbstractFunction f" "\<not> isinstance_Symbolic f"
  shows "call P f (PyNum x) = evaluate P f (PyNum x)"
  using assms by (cases f) simp_all

text \<open>
  C2. For function objects \<open>f\<close> and \<open>g\<close> that are not \<^verbatim>\<open>Symbolic\<close>, with derivatives
  \<open>f'\<close> and \<open>g'\<close>, and for every number \<open>x\<close> at which \<open>g\<close> evaluates to a number \<open>y\<close>:
  the derivative of \<^verbatim>\<open>Compose(f, g)\<close> evaluated at \<open>x\<close> is \<open>f'\<close> evaluated at \<open>y\<close>,
  multiplied by \<open>g'\<close> evaluated at \<open>x\<close> (with the errors of these evaluations, in
  this order).
\<close>

theorem Compose_derivative_chain_rule:
  assumes f: "isinstance_AbstractFunction f" "\<not> isinstance_Symbolic f"
    and g: "isinstance_AbstractFunction g" "\<not> isinstance_Symbolic g"
    and f': "derivative P f = Inr f'"
    and g': "derivative P g = Inr g'"
    and gx: "evaluate P g (PyNum x) = Inr (PyNum y)"
  shows "\<exists>d. derivative P (Compose f g) = Inr d \<and>
           evaluate P d (PyNum x) =
             (case evaluate P f' (PyNum y) of
                Inl e \<Rightarrow> Inl e
              | Inr a \<Rightarrow>
                  (case evaluate P g' (PyNum x) of
                     Inl e \<Rightarrow> Inl e
                   | Inr b \<Rightarrow> py_mul P a b))"
proof -
  have nf': "isinstance_AbstractFunction f'" "\<not> isinstance_Symbolic f'"
    using derivative_of_function [OF f f'] by simp_all
  have ng': "isinstance_AbstractFunction g'" "\<not> isinstance_Symbolic g'"
    using derivative_of_function [OF g g'] by simp_all
  have d: "derivative P (Compose f g) = Inr (Product (Compose f' g) g')"
    by (simp add: f' g' call_function [OF nf' g(1)])
  have inner: "call P (Compose f' g) (PyNum x) = evaluate P f' (PyNum y)"
    by (simp add: call_number [OF g] gx call_number [OF nf'])
  have "evaluate P (Product (Compose f' g) g') (PyNum x) =
          (case evaluate P f' (PyNum y) of
             Inl e \<Rightarrow> Inl e
           | Inr a \<Rightarrow>
               (case evaluate P g' (PyNum x) of
                  Inl e \<Rightarrow> Inl e
                | Inr b \<Rightarrow> py_mul P a b))"
    using inner by (simp add: call_number [OF ng'] del: call.simps cong: sum.case_cong)
  with d show ?thesis by blast
qed

theorem Compose_derivative_chain_rule_witness:
  "\<forall>P. \<exists>d. derivative P (Compose (Polynomial [1, 0, 0]) (Polynomial [3, 1])) = Inr d \<and>
            evaluate P d (PyNum (2 :: int)) = Inr (PyNum 42)"
proof
  fix P :: "int numeric"
  have "derivative P (Polynomial [1, 0, 0]) = Inr (Polynomial [2, 0])"
    by (simp add: Polynomial_derivative_def degree_def eval_nat_numeral)
  moreover have "derivative P (Polynomial [3, 1]) = Inr (Polynomial [3])"
    by (simp add: Polynomial_derivative_def degree_def eval_nat_numeral)
  moreover have "evaluate P (Polynomial [3, 1]) (PyNum 2) = Inr (PyNum 7)"
    by (simp add: evaluate_scalar_def)
  ultimately show "\<exists>d. derivative P (Compose (Polynomial [1, 0, 0]) (Polynomial [3, 1])) = Inr d \<and>
            evaluate P d (PyNum (2 :: int)) = Inr (PyNum 42)"
    using Compose_derivative_chain_rule
      [of "Polynomial [1, 0, 0]" "Polynomial [3, 1]" P "Polynomial [2, 0]" "Polynomial [3]" 2 7]
    by (simp add: evaluate_scalar_def py_mul_def)
qed

subsection \<open>Newton's method\<close>

lemma Symbolic_is_AbstractFunction:
  "isinstance_Symbolic f \<Longrightarrow> isinstance_AbstractFunction f"
  by (cases f) simp_all

text \<open>
  C5. \<^verbatim>\<open>newton_root\<close> returns the \<^verbatim>\<open>ValueError\<close> of its first check for every \<open>f\<close> that
  is no function object, and the \<^verbatim>\<open>ValueError\<close> of its second check for every
  \<^verbatim>\<open>Symbolic\<close>, whatever the starting point and the tolerance are: nothing is
  evaluated. For every other function object both checks pass and the call is the
  first evaluation followed by the loop.
\<close>

theorem newton_root_argument_check:
  "(\<not> isinstance_AbstractFunction f \<longrightarrow>
      newton_root P f x0 tol = Some (Inl (ValueError ''f must be an AbstractFunction''))) \<and>
   (isinstance_Symbolic f \<longrightarrow>
      newton_root P f x0 tol = Some (Inl (ValueError ''f must not be a Symbolic''))) \<and>
   (isinstance_AbstractFunction f \<and> \<not> isinstance_Symbolic f \<longrightarrow>
      newton_root P f x0 tol =
        (case evaluate P f (PyNum x0) of
           Inl e \<Rightarrow> Some (Inl e)
         | Inr fx \<Rightarrow> newton_loop P f tol x0 fx))"
  by (simp add: newton_root_def Symbolic_is_AbstractFunction)

theorem newton_root_argument_check_witness:
  "\<forall>P. newton_root P (PyStr ''f'') (1 :: real) default_tol =
         Some (Inl (ValueError ''f must be an AbstractFunction'')) \<and>
       newton_root P (Symbolic ''f'') (1 :: real) default_tol =
         Some (Inl (ValueError ''f must not be a Symbolic'')) \<and>
       newton_root P (Polynomial [1, 0, - 4]) (2 :: real) default_tol = Some (Inr 2)"
proof
  fix P :: "real numeric"
  show "newton_root P (PyStr ''f'') (1 :: real) default_tol =
         Some (Inl (ValueError ''f must be an AbstractFunction'')) \<and>
       newton_root P (Symbolic ''f'') (1 :: real) default_tol =
         Some (Inl (ValueError ''f must not be a Symbolic'')) \<and>
       newton_root P (Polynomial [1, 0, - 4]) (2 :: real) default_tol = Some (Inr 2)"
    using newton_root_argument_check [of "PyStr ''f''" P 1 default_tol]
      newton_root_argument_check [of "Symbolic ''f''" P 1 default_tol]
      newton_root_argument_check [of "Polynomial [1, 0, - 4]" P 2 default_tol]
    by (simp add: newton_loop.simps evaluate_scalar_def default_tol_def)
qed

lemma derivative_square: "derivative P (Polynomial [1, 0, 0 :: real]) = Inr (Polynomial [2, 0])"
  by (simp add: Polynomial_derivative_def degree_def eval_nat_numeral)

lemma newton_root_given_tol: "newton_root P (Polynomial [2, 0 :: real]) 1 3 = Some (Inr 1)"
  by (simp add: newton_root_def newton_loop.simps evaluate_scalar_def)

lemma newton_root_default_tol:
  "newton_root P (Polynomial [2, 0 :: real]) 1 default_tol = Some (Inr 0)"
  apply (simp add: newton_root_def evaluate_scalar_def)
  apply (subst newton_loop.simps)
  apply (simp add: default_tol_def Polynomial_derivative_def degree_def evaluate_scalar_def
      eval_nat_numeral)
  apply (subst newton_loop.simps)
  apply (simp add: default_tol_def)
  done

text \<open>
  C4. \<^verbatim>\<open>newton_extremum(f, x0, tol)\<close> is claimed to be \<^verbatim>\<open>newton_root(f.derivative(), x0, tol)\<close>.
  The code drops \<open>tol\<close>: for \<open>f = x\<^sup>2\<close>, \<open>x0 = 1\<close> and \<open>tol = 3\<close> the derivative \<open>2 * x\<close> is
  already within the tolerance at \<open>1\<close>, so the documented function returns \<open>1\<close>, and the
  code, running with \<open>1e-8\<close>, takes a Newton step and returns \<open>0\<close>. The result of the
  code does not depend on \<open>tol\<close> at all.
\<close>

theorem newton_extremum_drops_tol:
  "newton_extremum P (Polynomial [1, 0, 0 :: real]) 1 3 = Some (Inr 0) \<and>
   newton_extremum_spec P (Polynomial [1, 0, 0 :: real]) 1 3 = Some (Inr 1) \<and>
   newton_extremum P f x0 tol = newton_extremum_spec P f x0 default_tol"
  by (simp add: newton_extremum_def newton_extremum_spec_def derivative_square
      newton_root_given_tol newton_root_default_tol del: derivative.simps)

subsection \<open>The derivative of a Polynomial\<close>














subsection \<open>Polynomial addition writes into an operand\<close>

lemma slice_iadd_right_aligned:
  assumes "b \<noteq> []" "length b \<le> length a"
  shows "slice_iadd a b = Inr (right_aligned a b)"
  using assms by (simp add: slice_iadd_def right_aligned_def Let_def)

lemma length_right_aligned:
  assumes "length b \<le> length a"
  shows "length (right_aligned a b) = length a"
  using assms by (simp add: right_aligned_def)

lemma coefficient_right_aligned:
  fixes a :: "'a::comm_semiring_1 list"
  assumes "length b \<le> length a"
  shows "coefficient (right_aligned a b) j = coefficient a j + coefficient b j"
proof -
  let ?n = "length a" and ?k = "length b"
  consider "j < ?k" | "?k \<le> j" "j < ?n" | "?n \<le> j" by linarith
  then show ?thesis
  proof cases
    case 1
    have idx: "?n - Suc j - (?n - ?k) = ?k - Suc j" using 1 assms by arith
    have hi: "\<not> ?n - Suc j < ?n - ?k" using 1 assms by arith
    have lt: "?k - Suc j < ?k" using 1 by arith
    have "drop (?n - ?k) a ! (?k - Suc j) = a ! (?n - Suc j)"
      using 1 assms by simp
    with 1 assms idx hi lt show ?thesis
      by (simp add: coefficient_def right_aligned_def nth_append)
  next
    case 2
    with assms show ?thesis
      by (auto simp add: coefficient_def right_aligned_def nth_append)
  next
    case 3
    with assms show ?thesis
      by (simp add: coefficient_def right_aligned_def)
  qed
qed

lemma right_aligned_unchanged_iff:
  fixes a :: "'a::comm_ring_1 list"
  assumes "length b \<le> length a"
  shows "right_aligned a b = a \<longleftrightarrow> (\<forall>c\<in>set b. c = 0)"
proof -
  let ?d = "drop (length a - length b) a"
  have len: "length ?d = length b" using assms by simp
  have "right_aligned a b = a \<longleftrightarrow> map2 (+) ?d b = ?d"
    unfolding right_aligned_def by (metis append_take_drop_id same_append_eq)
  also have "\<dots> \<longleftrightarrow> (\<forall>i<length b. ?d ! i + b ! i = ?d ! i)"
    using len by (simp add: list_eq_iff_nth_eq)
  also have "\<dots> \<longleftrightarrow> (\<forall>i<length b. b ! i = 0)" by simp
  also have "\<dots> \<longleftrightarrow> (\<forall>c\<in>set b. c = 0)" by (simp add: all_set_conv_all_nth)
  finally show ?thesis .
qed

lemma slice_iadd_empty:
  "slice_iadd a [] =
     (if a = [] then Inr [] else Inl (ValueError ''operands could not be broadcast together''))"
  by (simp add: slice_iadd_def)

lemma slice_iadd_cases:
  assumes "length b \<le> length a"
  shows "slice_iadd a b =
     (if b = [] \<and> a \<noteq> [] then Inl (ValueError ''operands could not be broadcast together'')
      else Inr (right_aligned a b))"
proof (cases "b = []")
  case True
  then show ?thesis by (simp add: slice_iadd_empty right_aligned_def)
next
  case False
  then show ?thesis using slice_iadd_right_aligned [OF False assms] by simp
qed

lemma iadd_cases:
  assumes "array_len b \<le> array_len a"
  shows "iadd to_float a b =
     (if add_raises a b then
        (case (a, b) of
           (Int64 ca, Float64 cb) \<Rightarrow> Inl TypeError
         | _ \<Rightarrow> Inl (ValueError ''operands could not be broadcast together''))
      else Inr (aligned_sum to_float a b))"
  using assms by (cases a; cases b) (simp_all add: slice_iadd_cases)

text \<open>
  C6, as claimed: after \<open>p + q\<close> the operands are not both left unchanged. This fails
  when the operand of lower degree has only zero coefficients:
  \<^verbatim>\<open>Polynomial(0) + Polynomial(1,2)\<close> returns a new \<^verbatim>\<open>Polynomial(1,2)\<close> and leaves the
  arrays of both operands as they were.
\<close>

theorem Polynomial_add_zero_keeps_operands:
  "map_sum id (\<lambda>(r, s'). (r, map (array_at s') [0, 1, 2]))
     (Polynomial_add (\<lambda>w. real_of_int (sint w)) 0 1
        \<lparr>array_at = (\<lambda>_. Float64 [])(0 := Int64 [0], 1 := Int64 [1, 2]), next_ref = 2\<rparr>) =
   Inr (2, [Int64 [0], Int64 [1, 2], Int64 [1, 2]])"
  by (simp add: Polynomial_add_def array_degree_def slice_iadd_def new_Polynomial_def)

text \<open>
  C6, amended. For Polynomials \<open>p\<close> and \<open>q\<close> in the store, \<open>p + q\<close> writes into the
  array of the operand of higher degree (the right operand \<open>q\<close> when the degrees are
  equal). It raises when that array holds integers and the other operand's array
  holds floats (a \<^verbatim>\<open>TypeError\<close>), and when the other operand has no coefficient while
  the one written to has some. Otherwise it returns a new Polynomial whose
  coefficients are the right-aligned sum of the two coefficient sequences, in the
  type of the array written to; after the call the operand written to holds that
  sum, and no other Polynomial of the store is changed. For two Polynomials with
  integer coefficients the coefficient of every power is the sum, modulo \<open>2 ^ 64\<close>, of
  the operands' coefficients of that power, and the stored coefficients of the
  operand written to differ from what they were exactly when the other operand has a
  nonzero coefficient: when it has none, both operands are left unchanged.
\<close>

theorem Polynomial_add_writes_longer_operand:
  fixes s :: "'f::plus store"
  assumes self: "self < next_ref s" and other: "other < next_ref s"
  shows
  "let w = (if array_degree (array_at s self) > array_degree (array_at s other) then self else other);
       v = (if array_degree (array_at s self) > array_degree (array_at s other) then other else self);
       a = array_at s w;
       b = array_at s v
   in (add_raises a b \<longrightarrow> (\<exists>e. Polynomial_add to_float self other s = Inl e)) \<and>
      (\<forall>ca cb. a = Int64 ca \<and> b = Float64 cb \<longrightarrow>
         Polynomial_add to_float self other s = Inl TypeError) \<and>
      (\<not> add_raises a b \<longrightarrow>
         (\<exists>s'. Polynomial_add to_float self other s = Inr (next_ref s, s') \<and>
               array_at s' w = aligned_sum to_float a b \<and>
               array_at s' (next_ref s) = np_array (aligned_sum to_float a b) \<and>
               (\<forall>r. r \<noteq> w \<and> r \<noteq> next_ref s \<longrightarrow> array_at s' r = array_at s r) \<and>
               (\<forall>ca cb. a = Int64 ca \<and> b = Int64 cb \<longrightarrow>
                  (\<forall>k. coefficient (right_aligned ca cb) k = coefficient ca k + coefficient cb k) \<and>
                  (array_at s' w \<noteq> a \<longleftrightarrow> (\<exists>c\<in>set cb. c \<noteq> 0)))))"
proof (cases "array_degree (array_at s self) > array_degree (array_at s other)")
  case True
  let ?a = "array_at s self" and ?b = "array_at s other"
  from True have le: "array_len ?b \<le> array_len ?a" by (simp add: array_degree_def)
  have int: "(\<forall>k. coefficient (right_aligned ca cb) k = coefficient ca k + coefficient cb k) \<and>
             (right_aligned ca cb \<noteq> ca \<longleftrightarrow> (\<exists>c\<in>set cb. c \<noteq> 0))"
    if "?a = Int64 ca" "?b = Int64 cb" for ca cb
    using le that coefficient_right_aligned [of cb ca] right_aligned_unchanged_iff [of cb ca]
    by simp
  show ?thesis
    using True self int
    by (auto simp: Polynomial_add_def iadd_cases [OF le] new_Polynomial_def
        split: prod.splits ndarray.splits)
next
  case False
  let ?a = "array_at s other" and ?b = "array_at s self"
  from False have le: "array_len ?b \<le> array_len ?a" by (simp add: array_degree_def)
  have int: "(\<forall>k. coefficient (right_aligned ca cb) k = coefficient ca k + coefficient cb k) \<and>
             (right_aligned ca cb \<noteq> ca \<longleftrightarrow> (\<exists>c\<in>set cb. c \<noteq> 0))"
    if "?a = Int64 ca" "?b = Int64 cb" for ca cb
    using le that coefficient_right_aligned [of cb ca] right_aligned_unchanged_iff [of cb ca]
    by simp
  show ?thesis
    using False other int
    by (auto simp: Polynomial_add_def iadd_cases [OF le] new_Polynomial_def
        split: prod.splits ndarray.splits)
qed

theorem Polynomial_add_writes_longer_operand_witness:
  "map_sum id (\<lambda>(r, s'). (r, map (array_at s') [0, 1, 2]))
     (Polynomial_add (\<lambda>w. real_of_int (sint w)) 0 1
        \<lparr>array_at = (\<lambda>_. Float64 [])(0 := Int64 [1, 2, 3], 1 := Int64 [4, 5]), next_ref = 2\<rparr>) =
     Inr (2, [Int64 [1, 6, 8], Int64 [4, 5], Int64 [1, 6, 8]]) \<and>
   Polynomial_add (\<lambda>w. real_of_int (sint w)) 0 1
        \<lparr>array_at = (\<lambda>_. Float64 [])(0 := Int64 [1, 2], 1 := Float64 [2]), next_ref = 2\<rparr> =
     Inl TypeError"
proof -
  let ?f = "\<lambda>w :: 64 word. real_of_int (sint w)"
  let ?s = "\<lparr>array_at = (\<lambda>_. Float64 [])(0 := Int64 [1, 2, 3], 1 := Int64 [4, 5]), next_ref = 2\<rparr> :: real store"
  let ?t = "\<lparr>array_at = (\<lambda>_. Float64 [])(0 := Int64 [1, 2], 1 := Float64 [2]), next_ref = 2\<rparr> :: real store"
  have h1: "0 < next_ref ?s" and h2: "1 < next_ref ?s" by simp_all
  have k1: "0 < next_ref ?t" and k2: "1 < next_ref ?t" by simp_all
  show ?thesis
    using Polynomial_add_writes_longer_operand [OF h1 h2, of ?f]
      Polynomial_add_writes_longer_operand [OF k1 k2, of ?f]
    by (simp add: Polynomial_add_def array_degree_def slice_iadd_def new_Polynomial_def)
qed

end
